theory Spec2Isabelle
  imports Complex_Main
begin

section \<open>The recommendation engine of the farm dashboard\<close>

text \<open>
  The engine is the function \<open>generateEnhancedRecommendations\<close> of the dashboard page
  (lines 87 to 223 of the page source). It parses the strings of the submitted form,
  converts the field size to hectares, asks the classifier for a fertilizer, grades the
  soil readings against fixed thresholds and assembles the recommendation record.

  The module \<open>@/services/fertilizerMLService\<close> (the classifier \<open>predictFertilizer\<close> and
  the tables \<open>FERTILIZER_INFO\<close>, \<open>CROP_TYPES\<close>, \<open>SOIL_TYPES\<close>) is not part of the sources
  at hand; the engine takes them as parameters, collected in the record \<open>env\<close>.
\<close>

subsection \<open>JavaScript numbers\<close>

text \<open>
  A JavaScript number is a finite value, one of the two infinities, or NaN. Finite values
  are modelled by real numbers: the rounding of IEEE-754 doubles and the sign of zero are
  not modelled, so products and sums are exact. Comparisons with NaN are false and
  arithmetic on NaN gives NaN, as in the language.
\<close>

datatype number = NaN | Fin real | PosInf | NegInf

fun js_mult :: "number \<Rightarrow> number \<Rightarrow> number" where
  "js_mult (Fin a) (Fin b) = Fin (a * b)"
| "js_mult NaN _ = NaN"
| "js_mult _ NaN = NaN"
| "js_mult PosInf (Fin b) = (if b = 0 then NaN else if 0 < b then PosInf else NegInf)"
| "js_mult NegInf (Fin b) = (if b = 0 then NaN else if 0 < b then NegInf else PosInf)"
| "js_mult (Fin a) PosInf = (if a = 0 then NaN else if 0 < a then PosInf else NegInf)"
| "js_mult (Fin a) NegInf = (if a = 0 then NaN else if 0 < a then NegInf else PosInf)"
| "js_mult PosInf PosInf = PosInf"
| "js_mult NegInf NegInf = PosInf"
| "js_mult PosInf NegInf = NegInf"
| "js_mult NegInf PosInf = NegInf"

fun js_add :: "number \<Rightarrow> number \<Rightarrow> number" where
  "js_add (Fin a) (Fin b) = Fin (a + b)"
| "js_add NaN _ = NaN"
| "js_add _ NaN = NaN"
| "js_add PosInf NegInf = NaN"
| "js_add NegInf PosInf = NaN"
| "js_add PosInf _ = PosInf"
| "js_add NegInf _ = NegInf"
| "js_add _ PosInf = PosInf"
| "js_add _ NegInf = NegInf"

text \<open>The operator \<open><\<close> on numbers; \<open>a > b\<close> is \<open>js_less b a\<close>.\<close>

fun js_less :: "number \<Rightarrow> number \<Rightarrow> bool" where
  "js_less (Fin a) (Fin b) = (a < b)"
| "js_less NaN _ = False"
| "js_less _ NaN = False"
| "js_less NegInf NegInf = False"
| "js_less NegInf _ = True"
| "js_less PosInf _ = False"
| "js_less (Fin a) PosInf = True"
| "js_less (Fin a) NegInf = False"

definition js_greater :: "number \<Rightarrow> number \<Rightarrow> bool" where
  "js_greater a b = js_less b a"

text \<open>Strict equality \<open>===\<close> of two numbers: NaN is not equal to itself.\<close>

fun js_strict_eq :: "number \<Rightarrow> number \<Rightarrow> bool" where
  "js_strict_eq NaN _ = False"
| "js_strict_eq _ NaN = False"
| "js_strict_eq a b = (a = b)"

text \<open>
  \<open>Math.round\<close> gives the integer nearest to its argument, a tie going to the larger
  one: the floor of \<open>x + 1/2\<close>. NaN and the infinities are returned unchanged.
\<close>

fun Math_round :: "number \<Rightarrow> number" where
  "Math_round (Fin x) = Fin (of_int \<lfloor>x + 1 / 2\<rfloor>)"
| "Math_round n = n"

subsection \<open>Parsing the form's strings\<close>

text \<open>
  \<open>parseFloat\<close> and \<open>parseInt\<close> are built into the language. The model follows their
  grammar on strings of ASCII characters: leading white space is dropped, then a sign, then
  the longest prefix that is a decimal literal (for \<open>parseInt\<close>: digits, in base 16 after
  \<open>0x\<close>) is read; what follows it is ignored, and NaN is returned when there is no such
  prefix. The value read is exact (no rounding to a double, no overflow to infinity).
\<close>

definition is_ws :: "char \<Rightarrow> bool" where
  "is_ws c = (c \<in> set [CHR 0x09, CHR 0x0A, CHR 0x0B, CHR 0x0C, CHR 0x0D, CHR '' ''])"

definition is_digit :: "char \<Rightarrow> bool" where
  "is_digit c = (c \<in> set ''0123456789'')"

definition digit_val :: "char \<Rightarrow> nat" where
  "digit_val c =
     (let n = (of_char c :: nat)
      in if 48 \<le> n \<and> n \<le> 57 then n - 48
         else if 97 \<le> n \<and> n \<le> 102 then n - 87
         else n - 55)"

definition is_hex_digit :: "char \<Rightarrow> bool" where
  "is_hex_digit c = (c \<in> set ''0123456789abcdefABCDEF'')"

definition digits_val :: "nat \<Rightarrow> string \<Rightarrow> nat" where
  "digits_val radix ds = foldl (\<lambda>acc c. radix * acc + digit_val c) 0 ds"

text \<open>An optional sign: whether it was a minus, and the rest of the string.\<close>

fun strip_sign :: "string \<Rightarrow> bool \<times> string" where
  "strip_sign [] = (False, [])"
| "strip_sign (c # r) =
     (if c = CHR ''-'' then (True, r) else if c = CHR ''+'' then (False, r) else (False, c # r))"

text \<open>The exponent part \<open>e\<close>, sign, digits; it counts only when it has a digit.\<close>

fun exponent_part :: "string \<Rightarrow> int" where
  "exponent_part [] = 0"
| "exponent_part (c # r) =
     (if c = CHR ''e'' \<or> c = CHR ''E'' then
        (let (neg, ds) = strip_sign r; dd = takeWhile is_digit ds
         in if dd = [] then 0
            else if neg then - int (digits_val 10 dd) else int (digits_val 10 dd))
      else 0)"

definition scale10 :: "real \<Rightarrow> int \<Rightarrow> real" where
  "scale10 m e = (if 0 \<le> e then m * 10 ^ nat e else m / 10 ^ nat (- e))"

definition parseFloat :: "string \<Rightarrow> number" where
  "parseFloat s =
     (let (neg, u) = strip_sign (dropWhile is_ws s)
      in if take 8 u = ''Infinity'' then (if neg then NegInf else PosInf)
         else
           (let ip = takeWhile is_digit u;
                r1 = dropWhile is_digit u;
                (fp, r2) = (case r1 of
                              [] \<Rightarrow> ([], r1)
                            | c # r \<Rightarrow> if c = CHR ''.''
                                       then (takeWhile is_digit r, dropWhile is_digit r)
                                       else ([], r1))
            in if ip = [] \<and> fp = [] then NaN
               else
                 (let m = real (digits_val 10 (ip @ fp)) / 10 ^ length fp;
                      v = scale10 m (exponent_part r2)
                  in Fin (if neg then - v else v))))"

definition parseInt :: "string \<Rightarrow> number" where
  "parseInt s =
     (let (neg, u) = strip_sign (dropWhile is_ws s);
          (hex, v) = (case u of
                        a # b # r \<Rightarrow> if a = CHR ''0'' \<and> (b = CHR ''x'' \<or> b = CHR ''X'')
                                     then (True, r) else (False, u)
                      | _ \<Rightarrow> (False, u));
          ds = (if hex then takeWhile is_hex_digit v else takeWhile is_digit v)
      in if ds = [] then NaN
         else
           (let n = real (digits_val (if hex then 16 else 10) ds)
            in Fin (if neg then - n else n)))"

subsection \<open>The data of the engine\<close>

text \<open>The submitted form: every field is the text the user typed or selected.\<close>

record FormData =
  fieldName :: string
  fieldSize :: string
  sizeUnit :: string
  cropType :: string
  soilPH :: string
  nitrogen :: string
  phosphorus :: string
  potassium :: string
  soilType :: string
  temperature :: string
  humidity :: string
  soilMoisture :: string

text \<open>
  Two fields of the result are template literals with a number in them. They are kept as
  that number: \<open>Kg n\<close> is the text of \<open>n\<close> followed by \<open>kg\<close>, and \<open>INR n\<close> is the
  rupee sign followed by \<open>n.toLocaleString('en-IN')\<close>. The conversion of a number to its
  text is left to the language; two such texts are equal when their numbers are.
\<close>

datatype amount = Kg number

datatype money = INR number

text \<open>
  The records of the result, field for field as in the interface
  \<open>EnhancedRecommendation\<close>. A field name that the interface uses in two places has a
  prefix in the second: \<open>opt\<close> in an organic option, \<open>timing\<close> in the application
  timing, \<open>cost\<close> in the cost estimate.
\<close>

record Fertilizer =
  name :: string
  amount :: amount
  reason :: string
  applicationMethod :: string

record OrganicOption =
  optName :: string
  optAmount :: amount
  benefits :: string
  optApplicationTiming :: string

record ApplicationTiming =
  timingPrimary :: string
  timingSecondary :: string
  timingOrganic :: string

record CostEstimate =
  costPrimary :: money
  costSecondary :: money
  costOrganic :: money
  costTotal :: money

record SoilConditionAnalysis =
  phStatus :: string
  nutrientDeficiency :: "string list"
  moistureStatus :: string
  recommendations :: "string list"

record MlPrediction =
  fertilizer :: string
  confidence :: number

record EnhancedRecommendation =
  primaryFertilizer :: Fertilizer
  secondaryFertilizer :: Fertilizer
  organicOptions :: "OrganicOption list"
  applicationTiming :: ApplicationTiming
  costEstimate :: CostEstimate
  soilConditionAnalysis :: SoilConditionAnalysis
  mlPrediction :: MlPrediction

text \<open>The feature vector handed to the classifier (the object \<open>mlInput\<close>).\<close>

record MlInput =
  ml_temperature :: number
  ml_humidity :: number
  ml_moisture :: number
  ml_soilType :: number
  ml_cropType :: number
  ml_nitrogen :: number
  ml_potassium :: number
  ml_phosphorus :: number

text \<open>
  What the engine imports from the classifier service. An entry of \<open>FERTILIZER_INFO\<close>
  has the fields the two pages read. \<open>CROP_TYPES\<close> and \<open>SOIL_TYPES\<close> are objects from a
  name to a numeric code, given as their entries in the order of \<open>Object.keys\<close>. The call
  of \<open>predictFertilizer\<close> is awaited: it yields a prediction or fails, and its failure
  (\<open>Inl\<close>) is the only one the engine can meet.
\<close>

record FertilizerInfo =
  description :: string
  application :: string
  npk :: string

record 'e env =
  FERTILIZER_INFO :: "string \<rightharpoonup> FertilizerInfo"
  CROP_TYPES :: "(string \<times> number) list"
  SOIL_TYPES :: "(string \<times> number) list"
  predictFertilizer :: "MlInput \<Rightarrow> 'e + MlPrediction"

subsection \<open>The steps of \<open>generateEnhancedRecommendations\<close>\<close>

text \<open>Each definition below is one local binding of the function, under its name.\<close>

definition convertToHectares :: "number \<Rightarrow> string \<Rightarrow> number" where
  "convertToHectares sz unit =
     (if unit = ''acres'' then js_mult sz (Fin 0.404686)
      else if unit = ''bigha'' then js_mult sz (Fin 0.1338)
      else sz)"

definition mlInput_of :: "FormData \<Rightarrow> MlInput" where
  "mlInput_of data =
     \<lparr>ml_temperature = parseFloat (temperature data),
      ml_humidity = parseFloat (humidity data),
      ml_moisture = parseFloat (soilMoisture data),
      ml_soilType = parseInt (soilType data),
      ml_cropType = parseInt (cropType data),
      ml_nitrogen = parseFloat (nitrogen data),
      ml_potassium = parseFloat (potassium data),
      ml_phosphorus = parseFloat (phosphorus data)\<rparr>"

definition phStatus_of :: "number \<Rightarrow> string" where
  "phStatus_of pH =
     (if js_less pH (Fin 6.0) then ''Acidic''
      else if js_greater pH (Fin 7.5) then ''Alkaline'' else ''Optimal'')"

definition moistureStatus_of :: "number \<Rightarrow> string" where
  "moistureStatus_of moisture =
     (if js_less moisture (Fin 40) then ''Low''
      else if js_greater moisture (Fin 80) then ''High'' else ''Optimal'')"

text \<open>The three conditional \<open>push\<close>es onto the empty array, in their order.\<close>

definition nutrientDeficiency_of :: "number \<Rightarrow> number \<Rightarrow> number \<Rightarrow> string list" where
  "nutrientDeficiency_of n p k =
     (if js_less n (Fin 30) then [''Nitrogen''] else [])
     @ (if js_less p (Fin 15) then [''Phosphorus''] else [])
     @ (if js_less k (Fin 120) then [''Potassium''] else [])"

text \<open>
  \<open>Object.keys(t).find(key => t[key] === code) || 'Unknown'\<close>: the first name whose
  code is the given one; \<open>Unknown\<close> when there is none, or when that name is the empty
  string (which \<open>||\<close> takes for false).
\<close>

definition name_of_code :: "(string \<times> number) list \<Rightarrow> number \<Rightarrow> string" where
  "name_of_code t code =
     (case find (\<lambda>(key, v). js_strict_eq v code) t of
        None \<Rightarrow> ''Unknown''
      | Some (key, v) \<Rightarrow> if key = [] then ''Unknown'' else key)"

definition primaryFertilizer_of ::
  "(string \<rightharpoonup> FertilizerInfo) \<Rightarrow> MlPrediction \<Rightarrow> number \<Rightarrow> string \<Rightarrow> string \<Rightarrow> Fertilizer"
where
  "primaryFertilizer_of info mlp hectares cropName soilName =
     (let primaryFertilizerInfo = info (fertilizer mlp)
      in \<lparr>name = fertilizer mlp,
          amount = Kg (Math_round (js_mult (Fin 100) hectares)),
          reason = (case primaryFertilizerInfo of
                      Some i \<Rightarrow> description i
                    | None \<Rightarrow> ''ML model recommends this fertilizer for '' @ cropName
                               @ '' in '' @ soilName @ '' soil''),
          applicationMethod = (case primaryFertilizerInfo of
                                 Some i \<Rightarrow> application i
                               | None \<Rightarrow> ''Apply as per standard agricultural practices'')\<rparr>)"

definition secondaryFertilizer_of :: "string list \<Rightarrow> number \<Rightarrow> Fertilizer" where
  "secondaryFertilizer_of deficiency hectares =
     (if ''Phosphorus'' \<in> set deficiency then
        \<lparr>name = ''DAP'',
         amount = Kg (Math_round (js_mult (Fin 50) hectares)),
         reason = ''Addresses phosphorus deficiency identified in soil analysis'',
         applicationMethod = ''Apply as basal dose during soil preparation''\<rparr>
      else if ''Potassium'' \<in> set deficiency then
        \<lparr>name = ''Potassium sulfate'',
         amount = Kg (Math_round (js_mult (Fin 40) hectares)),
         reason = ''Addresses potassium deficiency for better fruit quality'',
         applicationMethod = ''Apply during fruit development stage''\<rparr>
      else
        \<lparr>name = ''Organic Compost'',
         amount = Kg (Math_round (js_mult (Fin 1000) hectares)),
         reason = ''Improves soil structure and provides slow-release nutrients'',
         applicationMethod = ''Apply 2-3 weeks before planting and incorporate into soil''\<rparr>)"

text \<open>
  The three costs are numbers; the total is their sum, taken after each was rounded.
\<close>

definition primaryCost :: "number \<Rightarrow> number" where
  "primaryCost hectares = Math_round (js_mult hectares (Fin 4000))"

definition secondaryCost :: "number \<Rightarrow> number" where
  "secondaryCost hectares = Math_round (js_mult hectares (Fin 2500))"

definition organicCost :: "number \<Rightarrow> number" where
  "organicCost hectares = Math_round (js_mult hectares (Fin 2000))"

definition totalCost :: "number \<Rightarrow> number" where
  "totalCost hectares =
     js_add (js_add (primaryCost hectares) (secondaryCost hectares)) (organicCost hectares)"

definition costEstimate_of :: "number \<Rightarrow> CostEstimate" where
  "costEstimate_of hectares =
     \<lparr>costPrimary = INR (primaryCost hectares),
      costSecondary = INR (secondaryCost hectares),
      costOrganic = INR (organicCost hectares),
      costTotal = INR (totalCost hectares)\<rparr>"

definition organicOptions_of :: "number \<Rightarrow> OrganicOption list" where
  "organicOptions_of hectares =
     [\<lparr>optName = ''Vermicompost'',
       optAmount = Kg (Math_round (js_mult (Fin 1000) hectares)),
       benefits = ''Rich in nutrients, improves soil structure and water retention'',
       optApplicationTiming = ''Apply 3-4 weeks before planting''\<rparr>,
      \<lparr>optName = ''Neem Cake'',
       optAmount = Kg (Math_round (js_mult (Fin 200) hectares)),
       benefits = ''Natural pest deterrent and slow-release nitrogen source'',
       optApplicationTiming = ''Apply at the time of land preparation''\<rparr>,
      \<lparr>optName = ''Bone Meal'',
       optAmount = Kg (Math_round (js_mult (Fin 150) hectares)),
       benefits = ''Excellent source of phosphorus and calcium'',
       optApplicationTiming = ''Apply as basal dose before sowing''\<rparr>]"

definition applicationTiming_of :: ApplicationTiming where
  "applicationTiming_of =
     \<lparr>timingPrimary = ''Apply 1-2 weeks before planting for optimal nutrient availability'',
      timingSecondary =
        ''Apply during active growth phase or as recommended for specific fertilizer'',
      timingOrganic = ''Apply 3-4 weeks before planting to allow decomposition''\<rparr>"

text \<open>\<open>Array.prototype.join\<close> on strings.\<close>

fun js_join :: "string \<Rightarrow> string list \<Rightarrow> string" where
  "js_join sep [] = []"
| "js_join sep [x] = x"
| "js_join sep (x # y # ys) = x @ sep @ js_join sep (y # ys)"

text \<open>
  The list of advice: five strings, then \<open>filter(Boolean)\<close>, which drops the strings
  that are empty.
\<close>

definition recommendations_of :: "number \<Rightarrow> string \<Rightarrow> string \<Rightarrow> string list \<Rightarrow> string list" where
  "recommendations_of pH phS moistS deficiency =
     filter (\<lambda>s. s \<noteq> [])
       [if phS \<noteq> ''Optimal''
        then ''Adjust soil pH using '' @ (if js_less pH (Fin 6.0) then ''lime'' else ''sulfur'')
        else ''Maintain current pH levels'',
        if moistS = ''Low'' then ''Increase irrigation frequency''
        else if moistS = ''High'' then ''Improve drainage''
        else ''Maintain current moisture levels'',
        if length deficiency > 0
        then ''Address '' @ js_join '', '' deficiency @ '' deficiency''
        else ''Nutrient levels are adequate'',
        ''Regular soil testing every 6 months is recommended'',
        ''Consider crop rotation to maintain soil health'']"

subsection \<open>The engine\<close>

text \<open>
  The body of \<open>generateEnhancedRecommendations\<close>. There is no check on what was
  parsed and no \<open>throw\<close>: the awaited classifier call is the one place where the
  function can fail, and its failure is passed on.
\<close>

definition generateEnhancedRecommendations ::
  "'e env \<Rightarrow> FormData \<Rightarrow> 'e + EnhancedRecommendation"
where
  "generateEnhancedRecommendations env data =
     (let pH = parseFloat (soilPH data);
          n = parseFloat (nitrogen data);
          p = parseFloat (phosphorus data);
          k = parseFloat (potassium data);
          moisture = parseFloat (soilMoisture data);
          sz = parseFloat (fieldSize data);
          hectares = convertToHectares sz (sizeUnit data)
      in case predictFertilizer env (mlInput_of data) of
           Inl e \<Rightarrow> Inl e
         | Inr mlp \<Rightarrow>
             (let phS = phStatus_of pH;
                  moistS = moistureStatus_of moisture;
                  deficiency = nutrientDeficiency_of n p k;
                  cropName = name_of_code (CROP_TYPES env) (parseInt (cropType data));
                  soilName = name_of_code (SOIL_TYPES env) (parseInt (soilType data))
              in Inr \<lparr>primaryFertilizer =
                         primaryFertilizer_of (FERTILIZER_INFO env) mlp hectares cropName soilName,
                       secondaryFertilizer = secondaryFertilizer_of deficiency hectares,
                       organicOptions = organicOptions_of hectares,
                       applicationTiming = applicationTiming_of,
                       costEstimate = costEstimate_of hectares,
                       soilConditionAnalysis =
                         \<lparr>phStatus = phS,
                          nutrientDeficiency = deficiency,
                          moistureStatus = moistS,
                          recommendations = recommendations_of pH phS moistS deficiency\<rparr>,
                       mlPrediction = mlp\<rparr>))"

subsection \<open>The specification's multiplier table\<close>


subsection \<open>A sample request\<close>

text \<open>
  The end-to-end scenario of the specification: a field of two hectares with acidic, dry
  soil short of all three nutrients, for which the classifier answers Urea with
  confidence 87. The tables of the sample environment are sample values (the service
  module is not at hand): no fertilizer has an entry, the crop code 1 is Wheat and the
  soil code 0 is Sandy.
\<close>

definition sample_data :: FormData where
  "sample_data =
     \<lparr>fieldName = ''North field'', fieldSize = ''2'', sizeUnit = ''hectares'',
      cropType = ''1'', soilPH = ''5.5'', nitrogen = ''20'', phosphorus = ''10'',
      potassium = ''100'', soilType = ''0'', temperature = ''25'', humidity = ''60'',
      soilMoisture = ''30''\<rparr>"

definition sample_prediction :: MlPrediction where
  "sample_prediction = \<lparr>fertilizer = ''Urea'', confidence = Fin 87\<rparr>"

definition sample_env :: "unit env" where
  "sample_env =
     \<lparr>FERTILIZER_INFO = Map.empty,
      CROP_TYPES = [(''Maize'', Fin 0), (''Wheat'', Fin 1)],
      SOIL_TYPES = [(''Sandy'', Fin 0), (''Loamy'', Fin 1)],
      predictFertilizer = (\<lambda>i. Inr sample_prediction)\<rparr>"


text \<open>The recommendation of the sample request, written out.\<close>

definition sample_result :: EnhancedRecommendation where
  "sample_result =
     \<lparr>primaryFertilizer =
        \<lparr>name = ''Urea'', amount = Kg (Fin 200),
         reason = ''ML model recommends this fertilizer for Wheat in Sandy soil'',
         applicationMethod = ''Apply as per standard agricultural practices''\<rparr>,
      secondaryFertilizer =
        \<lparr>name = ''DAP'', amount = Kg (Fin 100),
         reason = ''Addresses phosphorus deficiency identified in soil analysis'',
         applicationMethod = ''Apply as basal dose during soil preparation''\<rparr>,
      organicOptions =
        [\<lparr>optName = ''Vermicompost'', optAmount = Kg (Fin 2000),
          benefits = ''Rich in nutrients, improves soil structure and water retention'',
          optApplicationTiming = ''Apply 3-4 weeks before planting''\<rparr>,
         \<lparr>optName = ''Neem Cake'', optAmount = Kg (Fin 400),
          benefits = ''Natural pest deterrent and slow-release nitrogen source'',
          optApplicationTiming = ''Apply at the time of land preparation''\<rparr>,
         \<lparr>optName = ''Bone Meal'', optAmount = Kg (Fin 300),
          benefits = ''Excellent source of phosphorus and calcium'',
          optApplicationTiming = ''Apply as basal dose before sowing''\<rparr>],
      applicationTiming = applicationTiming_of,
      costEstimate =
        \<lparr>costPrimary = INR (Fin 8000), costSecondary = INR (Fin 5000),
         costOrganic = INR (Fin 4000), costTotal = INR (Fin 17000)\<rparr>,
      soilConditionAnalysis =
        \<lparr>phStatus = ''Acidic'',
         nutrientDeficiency = [''Nitrogen'', ''Phosphorus'', ''Potassium''],
         moistureStatus = ''Low'',
         recommendations =
           [''Adjust soil pH using lime'',
            ''Increase irrigation frequency'',
            ''Address Nitrogen, Phosphorus, Potassium deficiency'',
            ''Regular soil testing every 6 months is recommended'',
            ''Consider crop rotation to maintain soil health'']\<rparr>,
      mlPrediction = sample_prediction\<rparr>"

text \<open>
  The same request with a field size that is not a number, and what the engine returns
  for it: every amount and every cost is NaN. A third request has a negative field size.
\<close>

definition bad_data :: FormData where
  "bad_data = sample_data\<lparr>fieldSize := ''abc''\<rparr>"

definition negative_data :: FormData where
  "negative_data = sample_data\<lparr>fieldSize := ''-2''\<rparr>"

definition bad_result :: EnhancedRecommendation where
  "bad_result =
     \<lparr>primaryFertilizer =
        \<lparr>name = ''Urea'', amount = Kg NaN,
         reason = ''ML model recommends this fertilizer for Wheat in Sandy soil'',
         applicationMethod = ''Apply as per standard agricultural practices''\<rparr>,
      secondaryFertilizer =
        \<lparr>name = ''DAP'', amount = Kg NaN,
         reason = ''Addresses phosphorus deficiency identified in soil analysis'',
         applicationMethod = ''Apply as basal dose during soil preparation''\<rparr>,
      organicOptions =
        [\<lparr>optName = ''Vermicompost'', optAmount = Kg NaN,
          benefits = ''Rich in nutrients, improves soil structure and water retention'',
          optApplicationTiming = ''Apply 3-4 weeks before planting''\<rparr>,
         \<lparr>optName = ''Neem Cake'', optAmount = Kg NaN,
          benefits = ''Natural pest deterrent and slow-release nitrogen source'',
          optApplicationTiming = ''Apply at the time of land preparation''\<rparr>,
         \<lparr>optName = ''Bone Meal'', optAmount = Kg NaN,
          benefits = ''Excellent source of phosphorus and calcium'',
          optApplicationTiming = ''Apply as basal dose before sowing''\<rparr>],
      applicationTiming = applicationTiming_of,
      costEstimate =
        \<lparr>costPrimary = INR NaN, costSecondary = INR NaN,
         costOrganic = INR NaN, costTotal = INR NaN\<rparr>,
      soilConditionAnalysis = soilConditionAnalysis sample_result,
      mlPrediction = sample_prediction\<rparr>"

section \<open>Properties\<close>

subsection \<open>Shared lemmas\<close>

text \<open>Each field of a returned recommendation, in terms of the step that computes it.\<close>

lemma generate_fields:
  assumes "generateEnhancedRecommendations env data = Inr r"
  shows "predictFertilizer env (mlInput_of data) = Inr (mlPrediction r)"
    and "primaryFertilizer r =
           primaryFertilizer_of (FERTILIZER_INFO env) (mlPrediction r)
             (convertToHectares (parseFloat (fieldSize data)) (sizeUnit data))
             (name_of_code (CROP_TYPES env) (parseInt (cropType data)))
             (name_of_code (SOIL_TYPES env) (parseInt (soilType data)))"
    and "secondaryFertilizer r =
           secondaryFertilizer_of (nutrientDeficiency (soilConditionAnalysis r))
             (convertToHectares (parseFloat (fieldSize data)) (sizeUnit data))"
    and "organicOptions r =
           organicOptions_of (convertToHectares (parseFloat (fieldSize data)) (sizeUnit data))"
    and "applicationTiming r = applicationTiming_of"
    and "costEstimate r =
           costEstimate_of (convertToHectares (parseFloat (fieldSize data)) (sizeUnit data))"
    and "phStatus (soilConditionAnalysis r) = phStatus_of (parseFloat (soilPH data))"
    and "moistureStatus (soilConditionAnalysis r) =
           moistureStatus_of (parseFloat (soilMoisture data))"
    and "nutrientDeficiency (soilConditionAnalysis r) =
           nutrientDeficiency_of (parseFloat (nitrogen data)) (parseFloat (phosphorus data))
             (parseFloat (potassium data))"
    and "recommendations (soilConditionAnalysis r) =
           recommendations_of (parseFloat (soilPH data)) (phStatus (soilConditionAnalysis r))
             (moistureStatus (soilConditionAnalysis r))
             (nutrientDeficiency (soilConditionAnalysis r))"
  using assms
  by (auto simp: generateEnhancedRecommendations_def Let_def split: sum.splits)

lemma generate_total:
  assumes "predictFertilizer env (mlInput_of data) = Inr p"
  shows "\<exists>r. generateEnhancedRecommendations env data = Inr r"
  using assms by (simp add: generateEnhancedRecommendations_def Let_def)

lemma generate_fails:
  "generateEnhancedRecommendations env data = Inl e
     \<longleftrightarrow> predictFertilizer env (mlInput_of data) = Inl e"
  by (simp add: generateEnhancedRecommendations_def Let_def split: sum.splits)


lemma sample_readings:
  "parseFloat (soilPH sample_data) = Fin 5.5"
  "parseFloat (soilMoisture sample_data) = Fin 30"
  "parseFloat (nitrogen sample_data) = Fin 20"
  "parseFloat (phosphorus sample_data) = Fin 10"
  "parseFloat (potassium sample_data) = Fin 100"
  by code_simp+

lemma sample_run: "generateEnhancedRecommendations sample_env sample_data = Inr sample_result"
  by code_simp

lemma bad_run: "generateEnhancedRecommendations sample_env bad_data = Inr bad_result"
  by code_simp

subsection \<open>Unit normalisation\<close>



subsection \<open>Soil assessment\<close>

text \<open>
  Claim C3. When the readings of pH, moisture, nitrogen, phosphorus and potassium parse
  to finite numbers, the soil assessment of the returned recommendation grades each one
  on its own by fixed thresholds. The pH status is Acidic exactly when pH is below 6,
  Alkaline exactly when it is above 7.5, and Optimal otherwise, so that 5.9 is Acidic, 6.0
  and 7.5 are Optimal and 7.6 is Alkaline. The moisture status is Low exactly below 40,
  High exactly above 80, and Optimal otherwise. The deficiency list holds Nitrogen exactly
  when nitrogen is below 30, Phosphorus exactly when phosphorus is below 15 and Potassium
  exactly when potassium is below 120, always in the order Nitrogen, Phosphorus, Potassium.
\<close>

theorem soil_assessment_thresholds:
  assumes "generateEnhancedRecommendations env data = Inr r"
    and "parseFloat (soilPH data) = Fin ph"
    and "parseFloat (soilMoisture data) = Fin m"
    and "parseFloat (nitrogen data) = Fin n"
    and "parseFloat (phosphorus data) = Fin p"
    and "parseFloat (potassium data) = Fin k"
  shows "phStatus (soilConditionAnalysis r) =
           (if ph < 6 then ''Acidic'' else if ph > 7.5 then ''Alkaline'' else ''Optimal'')
         \<and> moistureStatus (soilConditionAnalysis r) =
           (if m < 40 then ''Low'' else if m > 80 then ''High'' else ''Optimal'')
         \<and> nutrientDeficiency (soilConditionAnalysis r) =
           (if n < 30 then [''Nitrogen''] else [])
           @ (if p < 15 then [''Phosphorus''] else [])
           @ (if k < 120 then [''Potassium''] else [])
         \<and> (''Nitrogen'' \<in> set (nutrientDeficiency (soilConditionAnalysis r))) = (n < 30)
         \<and> (''Phosphorus'' \<in> set (nutrientDeficiency (soilConditionAnalysis r))) = (p < 15)
         \<and> (''Potassium'' \<in> set (nutrientDeficiency (soilConditionAnalysis r))) = (k < 120)
         \<and> phStatus_of (Fin 5.9) = ''Acidic'' \<and> phStatus_of (Fin 6.0) = ''Optimal''
         \<and> phStatus_of (Fin 7.5) = ''Optimal'' \<and> phStatus_of (Fin 7.6) = ''Alkaline''"
proof -
  have ph: "phStatus (soilConditionAnalysis r) = phStatus_of (Fin ph)"
    using generate_fields(7) [OF assms(1)] assms(2) by simp
  have mo: "moistureStatus (soilConditionAnalysis r) = moistureStatus_of (Fin m)"
    using generate_fields(8) [OF assms(1)] assms(3) by simp
  have de: "nutrientDeficiency (soilConditionAnalysis r) =
              nutrientDeficiency_of (Fin n) (Fin p) (Fin k)"
    using generate_fields(9) [OF assms(1)] assms(4-6) by simp
  show ?thesis
    unfolding ph mo de
    by (simp add: phStatus_of_def moistureStatus_of_def nutrientDeficiency_of_def
        js_greater_def)
qed

theorem soil_assessment_thresholds_witness:
  "generateEnhancedRecommendations sample_env sample_data = Inr sample_result
   \<and> parseFloat (soilPH sample_data) = Fin 5.5
   \<and> parseFloat (soilMoisture sample_data) = Fin 30
   \<and> parseFloat (nitrogen sample_data) = Fin 20
   \<and> parseFloat (phosphorus sample_data) = Fin 10
   \<and> parseFloat (potassium sample_data) = Fin 100
   \<and> phStatus (soilConditionAnalysis sample_result) = ''Acidic''
   \<and> moistureStatus (soilConditionAnalysis sample_result) = ''Low''
   \<and> nutrientDeficiency (soilConditionAnalysis sample_result) =
       [''Nitrogen'', ''Phosphorus'', ''Potassium'']"
  using soil_assessment_thresholds [OF sample_run sample_readings] sample_run sample_readings
  by simp

subsection \<open>Fertilizer selection\<close>





text \<open>
  Claim C10. The engine passes the classifier's answer through: in every returned
  recommendation the field \<open>mlPrediction\<close> is the very prediction the classifier gave
  for the feature vector of the form, label and confidence unchanged, and the name of the
  primary fertilizer is the label of that prediction. The engine therefore returns no
  recommendation for which the classifier gave no prediction.
\<close>

theorem prediction_passed_through:
  assumes "generateEnhancedRecommendations env data = Inr r"
  shows "predictFertilizer env (mlInput_of data) = Inr (mlPrediction r)
         \<and> name (primaryFertilizer r) = fertilizer (mlPrediction r)"
proof -
  have 1: "predictFertilizer env (mlInput_of data) = Inr (mlPrediction r)"
    by (rule generate_fields(1) [OF assms])
  have 2: "name (primaryFertilizer r) = fertilizer (mlPrediction r)"
    using generate_fields(2) [OF assms] by (simp add: primaryFertilizer_of_def Let_def)
  from 1 2 show ?thesis by simp
qed

theorem prediction_passed_through_witness:
  "generateEnhancedRecommendations sample_env sample_data = Inr sample_result
   \<and> predictFertilizer sample_env (mlInput_of sample_data) = Inr sample_prediction
   \<and> mlPrediction sample_result = \<lparr>fertilizer = ''Urea'', confidence = Fin 87\<rparr>
   \<and> name (primaryFertilizer sample_result) = ''Urea''"
proof -
  have a: "predictFertilizer sample_env (mlInput_of sample_data)
             = Inr (mlPrediction sample_result)"
    and b: "name (primaryFertilizer sample_result) = fertilizer (mlPrediction sample_result)"
    using prediction_passed_through [OF sample_run] by blast+
  have c: "mlPrediction sample_result = sample_prediction"
    by (simp add: sample_result_def)
  show ?thesis
    using a b c sample_run by (simp add: sample_prediction_def)
qed

subsection \<open>Organic options and costs\<close>






subsection \<open>The list of advice\<close>

text \<open>
  Claim C7. For every input, the advice of a returned recommendation is a list of five
  strings in a fixed order; \<open>filter(Boolean)\<close> removes none of them. The first adjusts
  the pH with lime when the status is Acidic (pH below 6) and with sulfur when it is
  Alkaline, and says to maintain the pH when it is Optimal. The second is the advice on
  irrigation for Low moisture, on drainage for High moisture, and to maintain the moisture
  otherwise. The third names the deficient nutrients, joined by commas, or says that the
  nutrient levels are adequate when there is none. The fourth is the reminder of a soil
  test every six months and the fifth the reminder of crop rotation.
\<close>

theorem recommendations_five_entries:
  assumes "generateEnhancedRecommendations env data = Inr r"
  shows "length (recommendations (soilConditionAnalysis r)) = 5
         \<and> recommendations (soilConditionAnalysis r) =
             [if phStatus (soilConditionAnalysis r) = ''Acidic''
              then ''Adjust soil pH using lime''
              else if phStatus (soilConditionAnalysis r) = ''Alkaline''
              then ''Adjust soil pH using sulfur''
              else ''Maintain current pH levels'',
              if moistureStatus (soilConditionAnalysis r) = ''Low''
              then ''Increase irrigation frequency''
              else if moistureStatus (soilConditionAnalysis r) = ''High''
              then ''Improve drainage''
              else ''Maintain current moisture levels'',
              if nutrientDeficiency (soilConditionAnalysis r) = []
              then ''Nutrient levels are adequate''
              else ''Address '' @ js_join '', '' (nutrientDeficiency (soilConditionAnalysis r))
                   @ '' deficiency'',
              ''Regular soil testing every 6 months is recommended'',
              ''Consider crop rotation to maintain soil health'']
         \<and> (phStatus (soilConditionAnalysis r) = ''Acidic'')
             = js_less (parseFloat (soilPH data)) (Fin 6)
         \<and> (phStatus (soilConditionAnalysis r) = ''Optimal''
              \<or> phStatus (soilConditionAnalysis r) = ''Acidic''
              \<or> phStatus (soilConditionAnalysis r) = ''Alkaline'')"
proof -
  have ph: "phStatus (soilConditionAnalysis r) = phStatus_of (parseFloat (soilPH data))"
    by (rule generate_fields(7) [OF assms])
  have re: "recommendations (soilConditionAnalysis r) =
              recommendations_of (parseFloat (soilPH data))
                (phStatus_of (parseFloat (soilPH data)))
                (moistureStatus (soilConditionAnalysis r))
                (nutrientDeficiency (soilConditionAnalysis r))"
    using generate_fields(10) [OF assms] ph by simp
  show ?thesis
    unfolding re ph
    by (simp add: recommendations_of_def phStatus_of_def)
qed

theorem recommendations_five_entries_witness:
  "generateEnhancedRecommendations sample_env sample_data = Inr sample_result
   \<and> recommendations (soilConditionAnalysis sample_result) =
       [''Adjust soil pH using lime'',
        ''Increase irrigation frequency'',
        ''Address Nitrogen, Phosphorus, Potassium deficiency'',
        ''Regular soil testing every 6 months is recommended'',
        ''Consider crop rotation to maintain soil health'']
   \<and> length (recommendations (soilConditionAnalysis sample_result)) = 5"
proof -
  have "length (recommendations (soilConditionAnalysis sample_result)) = 5"
    using recommendations_five_entries [OF sample_run] by blast
  then show ?thesis
    using sample_run by (simp add: sample_result_def)
qed

subsection \<open>The engine as a whole\<close>



text \<open>
  Claim C2, as the specification states it: a form with a numeric field that does not
  parse, or with a field size that is not positive, makes the engine fail with an invalid
  input condition and produce no recommendation. The engine has no such check. For the
  sample request with the field size \<open>abc\<close>, which parses to NaN, it returns a
  recommendation with NaN for every amount and cost; with the field size \<open>-2\<close> it returns
  one with the primary amount \<open>-200\<close>.
\<close>

theorem invalid_input_counterexample:
  "parseFloat (fieldSize bad_data) = NaN
   \<and> generateEnhancedRecommendations sample_env bad_data = Inr bad_result
   \<and> amount (primaryFertilizer bad_result) = Kg NaN
   \<and> parseFloat (fieldSize negative_data) = Fin (- 2)
   \<and> \<not> isl (generateEnhancedRecommendations sample_env negative_data)
   \<and> amount (primaryFertilizer
         (projr (generateEnhancedRecommendations sample_env negative_data))) = Kg (Fin (- 200))"
proof -
  have 1: "parseFloat (fieldSize bad_data) = NaN"
    by code_simp
  have 2: "amount (primaryFertilizer bad_result) = Kg NaN"
    by (simp add: bad_result_def)
  have 3: "parseFloat (fieldSize negative_data) = Fin (- 2)"
    by code_simp
  have 4: "\<not> isl (generateEnhancedRecommendations sample_env negative_data)"
    by code_simp
  have 5: "amount (primaryFertilizer
         (projr (generateEnhancedRecommendations sample_env negative_data))) = Kg (Fin (- 200))"
    by code_simp
  from 1 2 3 4 5 bad_run show ?thesis by simp
qed

text \<open>
  Claim C2, amended. The engine does not validate the form. It fails exactly when the
  call of the classifier fails, and with that failure. Whenever the classifier returns a
  prediction, the engine returns a recommendation that carries it, also when a numeric
  field does not parse or the field size is not positive. A field size that does not parse
  is carried on as NaN: the primary amount, the secondary amount and the total cost of the
  returned recommendation are NaN.
\<close>

theorem no_input_validation:
  "(generateEnhancedRecommendations env data = Inl e
      \<longleftrightarrow> predictFertilizer env (mlInput_of data) = Inl e)
   \<and> (predictFertilizer env (mlInput_of data) = Inr p \<longrightarrow>
        (\<exists>r. generateEnhancedRecommendations env data = Inr r
           \<and> mlPrediction r = p
           \<and> (parseFloat (fieldSize data) = NaN \<longrightarrow>
                amount (primaryFertilizer r) = Kg NaN
                \<and> amount (secondaryFertilizer r) = Kg NaN
                \<and> costTotal (costEstimate r) = INR NaN)))"
proof (intro conjI impI)
  show "generateEnhancedRecommendations env data = Inl e
          \<longleftrightarrow> predictFertilizer env (mlInput_of data) = Inl e"
    by (rule generate_fails)
next
  assume p: "predictFertilizer env (mlInput_of data) = Inr p"
  then obtain r where run: "generateEnhancedRecommendations env data = Inr r"
    using generate_total by blast
  have pr: "mlPrediction r = p"
    using generate_fields(1) [OF run] p by simp
  have nan: "amount (primaryFertilizer r) = Kg NaN
             \<and> amount (secondaryFertilizer r) = Kg NaN
             \<and> costTotal (costEstimate r) = INR NaN"
    if "parseFloat (fieldSize data) = NaN"
  proof -
    have h: "convertToHectares (parseFloat (fieldSize data)) (sizeUnit data) = NaN"
      using that by (simp add: convertToHectares_def)
    show ?thesis
      using generate_fields(2,3,6) [OF run]
      by (simp add: h primaryFertilizer_of_def secondaryFertilizer_of_def costEstimate_of_def
          totalCost_def primaryCost_def secondaryCost_def organicCost_def Let_def)
  qed
  from run pr nan
  show "\<exists>r. generateEnhancedRecommendations env data = Inr r
           \<and> mlPrediction r = p
           \<and> (parseFloat (fieldSize data) = NaN \<longrightarrow>
                amount (primaryFertilizer r) = Kg NaN
                \<and> amount (secondaryFertilizer r) = Kg NaN
                \<and> costTotal (costEstimate r) = INR NaN)"
    by blast
qed

theorem no_input_validation_witness:
  "predictFertilizer sample_env (mlInput_of bad_data) = Inr sample_prediction
   \<and> parseFloat (fieldSize bad_data) = NaN
   \<and> (\<exists>r. generateEnhancedRecommendations sample_env bad_data = Inr r
         \<and> mlPrediction r = sample_prediction
         \<and> amount (primaryFertilizer r) = Kg NaN
         \<and> amount (secondaryFertilizer r) = Kg NaN
         \<and> costTotal (costEstimate r) = INR NaN)"
proof -
  have p: "predictFertilizer sample_env (mlInput_of bad_data) = Inr sample_prediction"
    by (simp add: sample_env_def)
  have n: "parseFloat (fieldSize bad_data) = NaN"
    by code_simp
  show ?thesis
    using no_input_validation [of sample_env bad_data "()" sample_prediction] p n
    by blast
qed

end
